theory Spec2Isabelle
  imports Main
begin

section \<open>Python values, exceptions and dictionaries\<close>

text \<open>
  The orchestrator of \<^verbatim>\<open>agents/crew.py\<close> stores values of type \<^verbatim>\<open>Any\<close> in its
  context dictionary and interpolates them into prompt templates with f-strings.
  \<open>pyval\<close> holds the values whose rendering Python fixes (\<^verbatim>\<open>None\<close>, booleans, exact
  \<^verbatim>\<open>str\<close> objects, the empty list and the empty dict); every other value (a non-empty
  container, a user object \<open>PyObject n\<close>) is rendered by the interpreter's
  \<^verbatim>\<open>__format__\<close>/\<^verbatim>\<open>__str__\<close> protocol, which is a parameter \<open>py_str\<close> of the model and
  may raise.
\<close>

datatype pyval =
    PyNone
  | PyBool bool
  | PyStr string
  | PyList "pyval list"
  | PyDict "(string \<times> pyval) list"
  | PyObject nat

text \<open>
  A raised exception: its class name, whether the class derives from \<^verbatim>\<open>Exception\<close>
  (what the clause \<^verbatim>\<open>except Exception\<close> matches; \<^verbatim>\<open>KeyboardInterrupt\<close> and
  \<^verbatim>\<open>SystemExit\<close> derive from \<^verbatim>\<open>BaseException\<close> only), and \<^verbatim>\<open>str(e)\<close>.
\<close>

datatype pyexn = PyExn (exn_class: string) (isinstance_Exception: bool) (exn_str: string)

type_synonym crew_context = "string \<rightharpoonup> pyval"

text \<open>\<^verbatim>\<open>d.get(key, default)\<close>: never raises on a missing key.\<close>

definition dict_get :: "(string \<rightharpoonup> 'v) \<Rightarrow> string \<Rightarrow> 'v \<Rightarrow> 'v" where
  "dict_get d key dflt = (case d key of None \<Rightarrow> dflt | Some v \<Rightarrow> v)"

text \<open>\<^verbatim>\<open>format(v, "")\<close>, the conversion an f-string field \<^verbatim>\<open>{v}\<close> applies.\<close>

fun py_format :: "(pyval \<Rightarrow> pyexn + string) \<Rightarrow> pyval \<Rightarrow> pyexn + string" where
  "py_format py_str PyNone = Inr ''None''"
| "py_format py_str (PyBool b) = Inr (if b then ''True'' else ''False'')"
| "py_format py_str (PyStr s) = Inr s"
| "py_format py_str (PyList []) = Inr ''[]''"
| "py_format py_str (PyDict []) = Inr ''{}''"
| "py_format py_str v = py_str v"

text \<open>
  An f-string is a sequence of literal pieces and interpolated values, evaluated left to
  right; the first field whose formatting raises ends the evaluation with that exception.
\<close>

datatype fpart = Lit string | Val pyval

fun fstring :: "(pyval \<Rightarrow> pyexn + string) \<Rightarrow> fpart list \<Rightarrow> pyexn + string" where
  "fstring py_str [] = Inr []"
| "fstring py_str (Lit s # ps) =
     (case fstring py_str ps of Inl e \<Rightarrow> Inl e | Inr r \<Rightarrow> Inr (s @ r))"
| "fstring py_str (Val v # ps) =
     (case py_format py_str v of
        Inl e \<Rightarrow> Inl e
      | Inr s \<Rightarrow> (case fstring py_str ps of Inl e \<Rightarrow> Inl e | Inr r \<Rightarrow> Inr (s @ r)))"

subsection \<open>The string methods the code calls (ASCII letters)\<close>

definition ascii_uppercase :: string where
  "ascii_uppercase = ''ABCDEFGHIJKLMNOPQRSTUVWXYZ''"

definition ascii_lowercase :: string where
  "ascii_lowercase = ''abcdefghijklmnopqrstuvwxyz''"

definition lower_char :: "char \<Rightarrow> char" where
  "lower_char c = (case map_of (zip ascii_uppercase ascii_lowercase) c of Some d \<Rightarrow> d | None \<Rightarrow> c)"

definition upper_char :: "char \<Rightarrow> char" where
  "upper_char c = (case map_of (zip ascii_lowercase ascii_uppercase) c of Some d \<Rightarrow> d | None \<Rightarrow> c)"

text \<open>\<^verbatim>\<open>s.lower()\<close>.\<close>

definition lower :: "string \<Rightarrow> string" where
  "lower s = map lower_char s"

text \<open>\<^verbatim>\<open>s.replace(old, new)\<close> for one-character \<^verbatim>\<open>old\<close> and \<^verbatim>\<open>new\<close>.\<close>

definition replace_char :: "char \<Rightarrow> char \<Rightarrow> string \<Rightarrow> string" where
  "replace_char old new s = map (\<lambda>c. if c = old then new else c) s"

text \<open>
  \<^verbatim>\<open>s.title()\<close>: a letter that follows a letter is lower-cased, a letter that does not
  is upper-cased; \<open>prev\<close> records whether the previous character was a letter.
\<close>

fun title_from :: "bool \<Rightarrow> string \<Rightarrow> string" where
  "title_from prev [] = []"
| "title_from prev (c # cs) =
     (if c \<in> set ascii_lowercase then (if prev then c else upper_char c) # title_from True cs
      else if c \<in> set ascii_uppercase then (if prev then lower_char c else c) # title_from True cs
      else c # title_from False cs)"

definition title :: "string \<Rightarrow> string" where
  "title s = title_from False s"

section \<open>Agents (\<^verbatim>\<open>agents/base.py\<close>)\<close>

datatype AgentRole =
    PRODUCT_MANAGER
  | ARCHITECT
  | TECH_LEAD
  | BACKEND_DEVELOPER
  | FRONTEND_DEVELOPER
  | DATABASE_ENGINEER
  | DEVOPS_ENGINEER
  | QA_ENGINEER
  | SECURITY_ANALYST
  | TECHNICAL_WRITER

fun AgentRole_value :: "AgentRole \<Rightarrow> string" where
  "AgentRole_value PRODUCT_MANAGER = ''product_manager''"
| "AgentRole_value ARCHITECT = ''architect''"
| "AgentRole_value TECH_LEAD = ''tech_lead''"
| "AgentRole_value BACKEND_DEVELOPER = ''backend_developer''"
| "AgentRole_value FRONTEND_DEVELOPER = ''frontend_developer''"
| "AgentRole_value DATABASE_ENGINEER = ''database_engineer''"
| "AgentRole_value DEVOPS_ENGINEER = ''devops_engineer''"
| "AgentRole_value QA_ENGINEER = ''qa_engineer''"
| "AgentRole_value SECURITY_ANALYST = ''security_analyst''"
| "AgentRole_value TECHNICAL_WRITER = ''technical_writer''"

text \<open>The tools of \<^verbatim>\<open>crewai_tools\<close> that the agents declare.\<close>

datatype Tool = FileReadTool | DirectoryReadTool | CodeInterpreterTool

record AgentConfig =
  role :: AgentRole
  goal :: string
  backstory :: string
  tools :: "Tool list"
  verbose :: bool
  allow_delegation :: bool
  max_iterations :: int
  memory :: bool

text \<open>
  The \<^verbatim>\<open>crewai.Agent\<close> that \<^verbatim>\<open>BaseAgent._create_agent\<close> builds from the configuration.
  The language-model binding (\<^verbatim>\<open>LLMProvider.create()\<close>, read from the process settings)
  is outside the model.
\<close>

record Agent =
  agent_role :: string
  agent_goal :: string
  agent_backstory :: string
  agent_tools :: "Tool list"
  agent_verbose :: bool
  agent_allow_delegation :: bool
  max_iter :: int
  agent_memory :: bool

definition BaseAgent_create_agent :: "AgentConfig \<Rightarrow> Agent" where
  "BaseAgent_create_agent cfg =
     \<lparr>agent_role = title (replace_char CHR ''_'' CHR '' '' (AgentRole_value (role cfg))),
      agent_goal = goal cfg,
      agent_backstory = backstory cfg,
      agent_tools = tools cfg,
      agent_verbose = verbose cfg,
      agent_allow_delegation = allow_delegation cfg,
      max_iter = max_iterations cfg,
      agent_memory = memory cfg\<rparr>"

record Task =
  description :: string
  expected_output :: string
  task_agent :: Agent

text \<open>
  \<^verbatim>\<open>BaseAgent\<close> is abstract in \<^verbatim>\<open>get_tasks(context)\<close>; a subclass supplies it. It returns
  a task list or raises.
\<close>

record BaseAgent =
  config :: AgentConfig
  get_tasks :: "crew_context \<Rightarrow> pyexn + Task list"

text \<open>The property \<^verbatim>\<open>BaseAgent.agent\<close>.\<close>

definition agent :: "BaseAgent \<Rightarrow> Agent" where
  "agent a = BaseAgent_create_agent (config a)"

section \<open>The eight agents (\<^verbatim>\<open>agents/development.py\<close>, \<^verbatim>\<open>agents/operations.py\<close>)\<close>

definition ArchitectAgent_config :: AgentConfig where
  "ArchitectAgent_config =
     \<lparr>role = ARCHITECT,
      goal = ''Design scalable, maintainable, and secure software architectures that meet business requirements while following industry best practices.'',
      backstory = ''You are a senior software architect with 15+ years of experience designing enterprise systems. You have deep expertise in microservices, event-driven architecture, and cloud-native design patterns. You excel at translating business requirements into technical specifications.'',
      tools = [FileReadTool, DirectoryReadTool],
      verbose = True,
      allow_delegation = True,
      max_iterations = 10,
      memory = True\<rparr>"

definition ArchitectAgent_get_tasks :: "(pyval \<Rightarrow> pyexn + string) \<Rightarrow> crew_context \<Rightarrow> pyexn + Task list" where
  "ArchitectAgent_get_tasks py_str crew_ctx =
    (let project_name = dict_get crew_ctx ''project_name'' (PyStr ''Unknown Project'');
        requirements = dict_get crew_ctx ''requirements'' (PyDict [])
     in (case fstring py_str
          [Lit ''
                Analyze the requirements for '',
           Val project_name,
           Lit '' and create a comprehensive
                system architecture document that includes:

                1. High-level system overview
                2. Component diagram with clear boundaries
                3. Data flow between components
                4. Technology stack recommendations with justifications
                5. Scalability considerations
                6. Security architecture
                7. Integration patterns

                Requirements: '',
           Val requirements,
           Lit ''
                ''] of
        Inl e \<Rightarrow> Inl e
      | Inr description1 \<Rightarrow>
       (case fstring py_str
          [Lit ''
                Based on the architecture for '',
           Val project_name,
           Lit '', create detailed
                API specifications including:

                1. RESTful endpoint definitions
                2. Request/Response schemas
                3. Authentication/Authorization flows
                4. Rate limiting strategy
                5. Error handling patterns
                ''] of
        Inl e \<Rightarrow> Inl e
      | Inr description2 \<Rightarrow>
       (Inr
         [\<lparr>description = description1,
            expected_output = ''A detailed architecture document in markdown format with diagrams described in ASCII art or mermaid syntax.'',
            task_agent = BaseAgent_create_agent ArchitectAgent_config\<rparr>,
          \<lparr>description = description2,
            expected_output = ''OpenAPI 3.0 specification in YAML format with all endpoints, schemas, and security definitions.'',
            task_agent = BaseAgent_create_agent ArchitectAgent_config\<rparr>]))))"

definition ArchitectAgent :: "(pyval \<Rightarrow> pyexn + string) \<Rightarrow> BaseAgent" where
  "ArchitectAgent py_str = \<lparr>config = ArchitectAgent_config, get_tasks = ArchitectAgent_get_tasks py_str\<rparr>"

definition BackendDeveloperAgent_config :: AgentConfig where
  "BackendDeveloperAgent_config =
     \<lparr>role = BACKEND_DEVELOPER,
      goal = ''Implement robust, efficient, and well-tested backend services following clean code principles and design patterns.'',
      backstory = ''You are a senior backend developer specializing in Python and FastAPI. You have extensive experience with PostgreSQL, Redis, and message queues. You write clean, testable code and always include comprehensive error handling and logging.'',
      tools = [FileReadTool, DirectoryReadTool, CodeInterpreterTool],
      verbose = True,
      allow_delegation = False,
      max_iterations = 10,
      memory = True\<rparr>"

definition BackendDeveloperAgent_get_tasks :: "(pyval \<Rightarrow> pyexn + string) \<Rightarrow> crew_context \<Rightarrow> pyexn + Task list" where
  "BackendDeveloperAgent_get_tasks py_str crew_ctx =
    (let project_name = dict_get crew_ctx ''project_name'' (PyStr ''Unknown Project'');
        architecture = dict_get crew_ctx ''architecture'' (PyDict []);
        api_spec = dict_get crew_ctx ''api_spec'' (PyDict [])
     in (case fstring py_str
          [Lit ''
                Implement the database models for '',
           Val project_name,
           Lit '' based on the
                architecture specification:

                Architecture: '',
           Val architecture,
           Lit ''

                Requirements:
                1. Use SQLAlchemy 2.0 with async support
                2. Include all necessary relationships
                3. Add appropriate indexes
                4. Include created_at, updated_at timestamps
                5. Implement soft delete where appropriate
                ''] of
        Inl e \<Rightarrow> Inl e
      | Inr description1 \<Rightarrow>
       (case fstring py_str
          [Lit ''
                Implement the REST API endpoints for '',
           Val project_name,
           Lit '' based on
                the API specification:

                API Spec: '',
           Val api_spec,
           Lit ''

                Requirements:
                1. Use FastAPI with async/await
                2. Include Pydantic schemas for validation
                3. Implement proper error handling
                4. Add authentication decorators
                5. Include OpenAPI documentation
                ''] of
        Inl e \<Rightarrow> Inl e
      | Inr description2 \<Rightarrow>
       (Inr
         [\<lparr>description = description1,
            expected_output = ''Complete SQLAlchemy model definitions in Python with all relationships, indexes, and constraints.'',
            task_agent = BaseAgent_create_agent BackendDeveloperAgent_config\<rparr>,
          \<lparr>description = description2,
            expected_output = ''Complete FastAPI route implementations with all CRUD operations, validation, and documentation.'',
            task_agent = BaseAgent_create_agent BackendDeveloperAgent_config\<rparr>]))))"

definition BackendDeveloperAgent :: "(pyval \<Rightarrow> pyexn + string) \<Rightarrow> BaseAgent" where
  "BackendDeveloperAgent py_str = \<lparr>config = BackendDeveloperAgent_config, get_tasks = BackendDeveloperAgent_get_tasks py_str\<rparr>"

definition FrontendDeveloperAgent_config :: AgentConfig where
  "FrontendDeveloperAgent_config =
     \<lparr>role = FRONTEND_DEVELOPER,
      goal = ''Create responsive, accessible, and performant user interfaces that provide excellent user experience.'',
      backstory = ''You are a senior frontend developer with expertise in React, Next.js, and TypeScript. You follow accessibility guidelines (WCAG 2.1), write semantic HTML, and optimize for performance. You use modern CSS with Tailwind and implement responsive designs.'',
      tools = [FileReadTool, DirectoryReadTool],
      verbose = True,
      allow_delegation = False,
      max_iterations = 10,
      memory = True\<rparr>"

definition FrontendDeveloperAgent_get_tasks :: "(pyval \<Rightarrow> pyexn + string) \<Rightarrow> crew_context \<Rightarrow> pyexn + Task list" where
  "FrontendDeveloperAgent_get_tasks py_str crew_ctx =
    (let project_name = dict_get crew_ctx ''project_name'' (PyStr ''Unknown Project'');
        design_spec = dict_get crew_ctx ''design_spec'' (PyDict []);
        api_endpoints = dict_get crew_ctx ''api_endpoints'' (PyList [])
     in (case fstring py_str
          [Lit ''
                Create the component architecture for '',
           Val project_name,
           Lit '':

                Design Specification: '',
           Val design_spec,
           Lit ''

                Requirements:
                1. Define component hierarchy
                2. Plan state management strategy
                3. Design reusable component library
                4. Plan routing structure
                5. Define API integration layer
                ''] of
        Inl e \<Rightarrow> Inl e
      | Inr description1 \<Rightarrow>
       (case fstring py_str
          [Lit ''
                Implement React components for '',
           Val project_name,
           Lit '' based on the
                component architecture:

                API Endpoints: '',
           Val api_endpoints,
           Lit ''

                Requirements:
                1. Use TypeScript with strict mode
                2. Implement with Next.js 14 app router
                3. Use TanStack Query for data fetching
                4. Style with Tailwind CSS
                5. Include loading and error states
                6. Ensure accessibility compliance
                ''] of
        Inl e \<Rightarrow> Inl e
      | Inr description2 \<Rightarrow>
       (Inr
         [\<lparr>description = description1,
            expected_output = ''Component architecture document with hierarchy diagram, state management plan, and component specifications.'',
            task_agent = BaseAgent_create_agent FrontendDeveloperAgent_config\<rparr>,
          \<lparr>description = description2,
            expected_output = ''Complete React/TypeScript component implementations with all required functionality and styling.'',
            task_agent = BaseAgent_create_agent FrontendDeveloperAgent_config\<rparr>]))))"

definition FrontendDeveloperAgent :: "(pyval \<Rightarrow> pyexn + string) \<Rightarrow> BaseAgent" where
  "FrontendDeveloperAgent py_str = \<lparr>config = FrontendDeveloperAgent_config, get_tasks = FrontendDeveloperAgent_get_tasks py_str\<rparr>"

definition DatabaseEngineerAgent_config :: AgentConfig where
  "DatabaseEngineerAgent_config =
     \<lparr>role = DATABASE_ENGINEER,
      goal = ''Design and optimize database schemas for performance, reliability, and data integrity.'',
      backstory = ''You are a database specialist with deep expertise in PostgreSQL. You understand query optimization, indexing strategies, and database normalization. You design for both OLTP and OLAP workloads and implement proper backup and recovery strategies.'',
      tools = [FileReadTool],
      verbose = True,
      allow_delegation = False,
      max_iterations = 10,
      memory = True\<rparr>"

definition DatabaseEngineerAgent_get_tasks :: "(pyval \<Rightarrow> pyexn + string) \<Rightarrow> crew_context \<Rightarrow> pyexn + Task list" where
  "DatabaseEngineerAgent_get_tasks py_str crew_ctx =
    (let project_name = dict_get crew_ctx ''project_name'' (PyStr ''Unknown Project'');
        data_model = dict_get crew_ctx ''data_model'' (PyDict [])
     in (case fstring py_str
          [Lit ''
                Design the database schema for '',
           Val project_name,
           Lit '':

                Data Model: '',
           Val data_model,
           Lit ''

                Requirements:
                1. Define all tables with appropriate data types
                2. Establish primary and foreign keys
                3. Design indexes for common queries
                4. Plan partitioning strategy if needed
                5. Consider denormalization for read performance
                6. Include audit columns
                ''] of
        Inl e \<Rightarrow> Inl e
      | Inr description1 \<Rightarrow>
       (case fstring py_str
          [Lit ''
                Create Alembic migrations for '',
           Val project_name,
           Lit '':

                Requirements:
                1. Initial schema migration
                2. Seed data migration
                3. Index creation migration
                4. Include rollback procedures
                ''] of
        Inl e \<Rightarrow> Inl e
      | Inr description2 \<Rightarrow>
       (Inr
         [\<lparr>description = description1,
            expected_output = ''Complete database schema in SQL DDL format with all tables, indexes, constraints, and documentation.'',
            task_agent = BaseAgent_create_agent DatabaseEngineerAgent_config\<rparr>,
          \<lparr>description = description2,
            expected_output = ''Alembic migration files with upgrade and downgrade functions for all schema changes.'',
            task_agent = BaseAgent_create_agent DatabaseEngineerAgent_config\<rparr>]))))"

definition DatabaseEngineerAgent :: "(pyval \<Rightarrow> pyexn + string) \<Rightarrow> BaseAgent" where
  "DatabaseEngineerAgent py_str = \<lparr>config = DatabaseEngineerAgent_config, get_tasks = DatabaseEngineerAgent_get_tasks py_str\<rparr>"

definition DevOpsEngineerAgent_config :: AgentConfig where
  "DevOpsEngineerAgent_config =
     \<lparr>role = DEVOPS_ENGINEER,
      goal = ''Design and implement robust CI/CD pipelines, infrastructure as code, and deployment automation for reliable software delivery.'',
      backstory = ''You are a senior DevOps engineer with expertise in Docker, Kubernetes, Terraform, and GitHub Actions. You implement GitOps workflows, design for high availability, and ensure zero-downtime deployments. You follow security best practices and implement comprehensive monitoring.'',
      tools = [FileReadTool, DirectoryReadTool],
      verbose = True,
      allow_delegation = False,
      max_iterations = 10,
      memory = True\<rparr>"

definition DevOpsEngineerAgent_get_tasks :: "(pyval \<Rightarrow> pyexn + string) \<Rightarrow> crew_context \<Rightarrow> pyexn + Task list" where
  "DevOpsEngineerAgent_get_tasks py_str crew_ctx =
    (let project_name = dict_get crew_ctx ''project_name'' (PyStr ''Unknown Project'');
        architecture = dict_get crew_ctx ''architecture'' (PyDict [])
     in (case fstring py_str
          [Lit ''
                Create Docker configuration for '',
           Val project_name,
           Lit '':

                Architecture: '',
           Val architecture,
           Lit ''

                Requirements:
                1. Multi-stage Dockerfile for each service
                2. Docker Compose for local development
                3. Optimize image sizes
                4. Include health checks
                5. Configure proper networking
                6. Set up volume mounts for persistence
                ''] of
        Inl e \<Rightarrow> Inl e
      | Inr description1 \<Rightarrow>
       (case fstring py_str
          [Lit ''
                Create CI/CD pipeline for '',
           Val project_name,
           Lit '':

                Requirements:
                1. GitHub Actions workflow
                2. Build and test stages
                3. Security scanning (SAST/DAST)
                4. Container image building and pushing
                5. Deployment to staging and production
                6. Rollback procedures
                ''] of
        Inl e \<Rightarrow> Inl e
      | Inr description2 \<Rightarrow>
       (case fstring py_str
          [Lit ''
                Create infrastructure as code for '',
           Val project_name,
           Lit '':

                Requirements:
                1. Terraform modules for cloud resources
                2. Kubernetes manifests or Helm charts
                3. Network security groups
                4. Load balancer configuration
                5. Auto-scaling policies
                6. Monitoring and alerting setup
                ''] of
        Inl e \<Rightarrow> Inl e
      | Inr description3 \<Rightarrow>
       (Inr
         [\<lparr>description = description1,
            expected_output = ''Complete Dockerfile and docker-compose.yml with all services, networks, and volumes configured.'',
            task_agent = BaseAgent_create_agent DevOpsEngineerAgent_config\<rparr>,
          \<lparr>description = description2,
            expected_output = ''Complete GitHub Actions workflow files with all stages, secrets management, and environment configurations.'',
            task_agent = BaseAgent_create_agent DevOpsEngineerAgent_config\<rparr>,
          \<lparr>description = description3,
            expected_output = ''Complete Terraform configurations and Kubernetes manifests for production deployment.'',
            task_agent = BaseAgent_create_agent DevOpsEngineerAgent_config\<rparr>])))))"

definition DevOpsEngineerAgent :: "(pyval \<Rightarrow> pyexn + string) \<Rightarrow> BaseAgent" where
  "DevOpsEngineerAgent py_str = \<lparr>config = DevOpsEngineerAgent_config, get_tasks = DevOpsEngineerAgent_get_tasks py_str\<rparr>"

definition QAEngineerAgent_config :: AgentConfig where
  "QAEngineerAgent_config =
     \<lparr>role = QA_ENGINEER,
      goal = ''Ensure software quality through comprehensive testing strategies, automated test suites, and continuous quality monitoring.'',
      backstory = ''You are a senior QA engineer with expertise in test automation. You design test strategies covering unit, integration, e2e, and performance testing. You use pytest for backend, Jest/Playwright for frontend, and implement quality gates in CI/CD pipelines.'',
      tools = [FileReadTool, DirectoryReadTool],
      verbose = True,
      allow_delegation = False,
      max_iterations = 10,
      memory = True\<rparr>"

definition QAEngineerAgent_get_tasks :: "(pyval \<Rightarrow> pyexn + string) \<Rightarrow> crew_context \<Rightarrow> pyexn + Task list" where
  "QAEngineerAgent_get_tasks py_str crew_ctx =
    (let project_name = dict_get crew_ctx ''project_name'' (PyStr ''Unknown Project'');
        requirements = dict_get crew_ctx ''requirements'' (PyDict [])
     in (case fstring py_str
          [Lit ''
                Create test strategy for '',
           Val project_name,
           Lit '':

                Requirements: '',
           Val requirements,
           Lit ''

                Include:
                1. Test pyramid structure
                2. Coverage targets for each layer
                3. Test environment requirements
                4. Data management strategy
                5. Performance testing approach
                6. Security testing scope
                ''] of
        Inl e \<Rightarrow> Inl e
      | Inr description1 \<Rightarrow>
       (case fstring py_str
          [Lit ''
                Implement backend test suite for '',
           Val project_name,
           Lit '':

                Requirements:
                1. Unit tests with pytest
                2. Integration tests for API endpoints
                3. Database tests with test fixtures
                4. Mock external dependencies
                5. Achieve 80%+ code coverage
                6. Include performance benchmarks
                ''] of
        Inl e \<Rightarrow> Inl e
      | Inr description2 \<Rightarrow>
       (case fstring py_str
          [Lit ''
                Implement frontend test suite for '',
           Val project_name,
           Lit '':

                Requirements:
                1. Component tests with Jest/React Testing Library
                2. E2E tests with Playwright
                3. Visual regression tests
                4. Accessibility tests
                5. Performance budgets
                ''] of
        Inl e \<Rightarrow> Inl e
      | Inr description3 \<Rightarrow>
       (Inr
         [\<lparr>description = description1,
            expected_output = ''Comprehensive test strategy document with detailed approach for each testing layer.'',
            task_agent = BaseAgent_create_agent QAEngineerAgent_config\<rparr>,
          \<lparr>description = description2,
            expected_output = ''Complete pytest test suite with fixtures, mocks, and configuration for CI integration.'',
            task_agent = BaseAgent_create_agent QAEngineerAgent_config\<rparr>,
          \<lparr>description = description3,
            expected_output = ''Complete frontend test suite with component tests, E2E scenarios, and CI configuration.'',
            task_agent = BaseAgent_create_agent QAEngineerAgent_config\<rparr>])))))"

definition QAEngineerAgent :: "(pyval \<Rightarrow> pyexn + string) \<Rightarrow> BaseAgent" where
  "QAEngineerAgent py_str = \<lparr>config = QAEngineerAgent_config, get_tasks = QAEngineerAgent_get_tasks py_str\<rparr>"

definition SecurityAnalystAgent_config :: AgentConfig where
  "SecurityAnalystAgent_config =
     \<lparr>role = SECURITY_ANALYST,
      goal = ''Identify and mitigate security risks through threat modeling, security testing, and implementation of security controls.'',
      backstory = ''You are a senior security analyst with expertise in application security. You conduct threat modeling using STRIDE, perform security code reviews, and ensure compliance with OWASP guidelines. You implement security controls for authentication, authorization, and data protection.'',
      tools = [FileReadTool, DirectoryReadTool],
      verbose = True,
      allow_delegation = False,
      max_iterations = 10,
      memory = True\<rparr>"

definition SecurityAnalystAgent_get_tasks :: "(pyval \<Rightarrow> pyexn + string) \<Rightarrow> crew_context \<Rightarrow> pyexn + Task list" where
  "SecurityAnalystAgent_get_tasks py_str crew_ctx =
    (let project_name = dict_get crew_ctx ''project_name'' (PyStr ''Unknown Project'');
        architecture = dict_get crew_ctx ''architecture'' (PyDict [])
     in (case fstring py_str
          [Lit ''
                Perform threat modeling for '',
           Val project_name,
           Lit '':

                Architecture: '',
           Val architecture,
           Lit ''

                Requirements:
                1. Identify trust boundaries
                2. Apply STRIDE methodology
                3. Document threat scenarios
                4. Prioritize by risk level
                5. Recommend mitigations
                ''] of
        Inl e \<Rightarrow> Inl e
      | Inr description1 \<Rightarrow>
       (case fstring py_str
          [Lit ''
                Define security requirements for '',
           Val project_name,
           Lit '':

                Requirements:
                1. Authentication mechanisms (OAuth2/OIDC)
                2. Authorization model (RBAC/ABAC)
                3. Data encryption (at rest and in transit)
                4. Input validation rules
                5. Audit logging requirements
                6. Compliance controls (GDPR, SOC2)
                ''] of
        Inl e \<Rightarrow> Inl e
      | Inr description2 \<Rightarrow>
       (case fstring py_str
          [Lit ''
                Create security testing plan for '',
           Val project_name,
           Lit '':

                Requirements:
                1. SAST tool configuration
                2. DAST scanning scope
                3. Dependency vulnerability scanning
                4. Penetration testing scope
                5. Security regression tests
                ''] of
        Inl e \<Rightarrow> Inl e
      | Inr description3 \<Rightarrow>
       (Inr
         [\<lparr>description = description1,
            expected_output = ''Threat model document with identified threats, risk ratings, and mitigation strategies.'',
            task_agent = BaseAgent_create_agent SecurityAnalystAgent_config\<rparr>,
          \<lparr>description = description2,
            expected_output = ''Security requirements specification with implementation guidance for each control.'',
            task_agent = BaseAgent_create_agent SecurityAnalystAgent_config\<rparr>,
          \<lparr>description = description3,
            expected_output = ''Security testing plan with tool configurations, test cases, and CI integration.'',
            task_agent = BaseAgent_create_agent SecurityAnalystAgent_config\<rparr>])))))"

definition SecurityAnalystAgent :: "(pyval \<Rightarrow> pyexn + string) \<Rightarrow> BaseAgent" where
  "SecurityAnalystAgent py_str = \<lparr>config = SecurityAnalystAgent_config, get_tasks = SecurityAnalystAgent_get_tasks py_str\<rparr>"

definition TechnicalWriterAgent_config :: AgentConfig where
  "TechnicalWriterAgent_config =
     \<lparr>role = TECHNICAL_WRITER,
      goal = ''Create clear, comprehensive, and maintainable documentation that enables users and developers to effectively use the system.'',
      backstory = ''You are a senior technical writer with experience documenting complex software systems. You create API documentation, user guides, and developer documentation. You follow docs-as-code practices and ensure documentation stays in sync with code.'',
      tools = [FileReadTool, DirectoryReadTool],
      verbose = True,
      allow_delegation = False,
      max_iterations = 10,
      memory = True\<rparr>"

definition TechnicalWriterAgent_get_tasks :: "(pyval \<Rightarrow> pyexn + string) \<Rightarrow> crew_context \<Rightarrow> pyexn + Task list" where
  "TechnicalWriterAgent_get_tasks py_str crew_ctx =
    (let project_name = dict_get crew_ctx ''project_name'' (PyStr ''Unknown Project'');
        api_spec = dict_get crew_ctx ''api_spec'' (PyDict [])
     in (case fstring py_str
          [Lit ''
                Create API documentation for '',
           Val project_name,
           Lit '':

                API Specification: '',
           Val api_spec,
           Lit ''

                Requirements:
                1. Getting started guide
                2. Authentication guide
                3. Endpoint reference with examples
                4. Error code reference
                5. Rate limiting documentation
                6. SDK examples (curl, Python, JavaScript)
                ''] of
        Inl e \<Rightarrow> Inl e
      | Inr description1 \<Rightarrow>
       (case fstring py_str
          [Lit ''
                Create developer documentation for '',
           Val project_name,
           Lit '':

                Requirements:
                1. Local development setup
                2. Architecture overview
                3. Code contribution guidelines
                4. Testing guide
                5. Deployment guide
                6. Troubleshooting guide
                ''] of
        Inl e \<Rightarrow> Inl e
      | Inr description2 \<Rightarrow>
       (Inr
         [\<lparr>description = description1,
            expected_output = ''Complete API documentation in markdown format with examples, diagrams, and code samples.'',
            task_agent = BaseAgent_create_agent TechnicalWriterAgent_config\<rparr>,
          \<lparr>description = description2,
            expected_output = ''Complete developer documentation enabling new developers to contribute to the project.'',
            task_agent = BaseAgent_create_agent TechnicalWriterAgent_config\<rparr>]))))"

definition TechnicalWriterAgent :: "(pyval \<Rightarrow> pyexn + string) \<Rightarrow> BaseAgent" where
  "TechnicalWriterAgent py_str = \<lparr>config = TechnicalWriterAgent_config, get_tasks = TechnicalWriterAgent_get_tasks py_str\<rparr>"

section \<open>Crew orchestration (\<^verbatim>\<open>agents/crew.py\<close>)\<close>

datatype ProjectPhase =
    PLANNING
  | ARCHITECTURE
  | DEVELOPMENT
  | TESTING
  | DEPLOYMENT
  | DOCUMENTATION

record CrewResult =
  phase :: ProjectPhase
  status :: string
  outputs :: "string \<rightharpoonup> pyval"
  errors :: "string list"

text \<open>The arguments \<^verbatim>\<open>execute_phase\<close> passes to \<^verbatim>\<open>crewai.Crew\<close>.\<close>

datatype Process = sequential | hierarchical

record Crew =
  crew_agents :: "Agent list"
  crew_tasks :: "Task list"
  process :: Process
  crew_verbose :: bool

text \<open>
  The state of a \<^verbatim>\<open>ProjectCrew\<close> object: \<^verbatim>\<open>self.context\<close>, \<^verbatim>\<open>self.results\<close> and the
  roster \<^verbatim>\<open>self.agents\<close>.
\<close>

record ProjectCrew =
  crew_context :: crew_context
  results :: "CrewResult list"
  agents :: "string \<rightharpoonup> BaseAgent"

text \<open>\<^verbatim>\<open>ProjectCrew.__init__\<close>: the context as given, an empty log, the eight agents.\<close>

definition ProjectCrew_init :: "(pyval \<Rightarrow> pyexn + string) \<Rightarrow> crew_context \<Rightarrow> ProjectCrew" where
  "ProjectCrew_init py_str project_context =
     \<lparr>crew_context = project_context,
      results = [],
      agents = map_of
        [(''architect'', ArchitectAgent py_str),
         (''backend'', BackendDeveloperAgent py_str),
         (''frontend'', FrontendDeveloperAgent py_str),
         (''database'', DatabaseEngineerAgent py_str),
         (''devops'', DevOpsEngineerAgent py_str),
         (''qa'', QAEngineerAgent py_str),
         (''security'', SecurityAnalystAgent py_str),
         (''writer'', TechnicalWriterAgent py_str)]\<rparr>"

fun phase_mapping :: "ProjectPhase \<Rightarrow> string list" where
  "phase_mapping PLANNING = [''architect'']"
| "phase_mapping ARCHITECTURE = [''architect'', ''database'', ''security'']"
| "phase_mapping DEVELOPMENT = [''backend'', ''frontend'', ''database'']"
| "phase_mapping TESTING = [''qa'', ''security'']"
| "phase_mapping DEPLOYMENT = [''devops'']"
| "phase_mapping DOCUMENTATION = [''writer'']"

text \<open>
  \<^verbatim>\<open>[self.agents[key] for key in agent_keys]\<close>: a key missing from the roster raises
  \<^verbatim>\<open>KeyError\<close>, whose \<^verbatim>\<open>str\<close> is the quoted key.
\<close>

fun lookup_agents :: "(string \<rightharpoonup> BaseAgent) \<Rightarrow> string list \<Rightarrow> pyexn + BaseAgent list" where
  "lookup_agents roster [] = Inr []"
| "lookup_agents roster (key # keys) =
     (case roster key of
        None \<Rightarrow> Inl (PyExn ''KeyError'' True ([CHR 0x27] @ key @ [CHR 0x27]))
      | Some a \<Rightarrow>
          (case lookup_agents roster keys of Inl e \<Rightarrow> Inl e | Inr as \<Rightarrow> Inr (a # as)))"

definition get_phase_agents :: "ProjectCrew \<Rightarrow> ProjectPhase \<Rightarrow> pyexn + BaseAgent list" where
  "get_phase_agents self ph = lookup_agents (agents self) (phase_mapping ph)"

definition update_context :: "ProjectCrew \<Rightarrow> ProjectPhase \<Rightarrow> pyval \<Rightarrow> ProjectCrew" where
  "update_context self ph result =
     (if ph = ARCHITECTURE then self\<lparr>crew_context := (crew_context self)(''architecture'' \<mapsto> result)\<rparr>
      else if ph = PLANNING then self\<lparr>crew_context := (crew_context self)(''api_spec'' \<mapsto> result)\<rparr>
      else self)"

text \<open>
  The loop of \<^verbatim>\<open>execute_phase\<close> that fills \<^verbatim>\<open>all_tasks\<close>: each agent's tasks are appended
  in turn; an exception of \<^verbatim>\<open>get_tasks\<close> leaves the loop.
\<close>

fun collect_tasks :: "BaseAgent list \<Rightarrow> crew_context \<Rightarrow> Task list \<Rightarrow> pyexn + Task list" where
  "collect_tasks [] cx all_tasks = Inr all_tasks"
| "collect_tasks (a # as) cx all_tasks =
     (case get_tasks a cx of
        Inl e \<Rightarrow> Inl e
      | Inr tasks \<Rightarrow> collect_tasks as cx (all_tasks @ tasks))"

text \<open>
  \<^verbatim>\<open>execute_phase\<close>. The execution layer \<^verbatim>\<open>crew.kickoff()\<close> is a parameter: from the crew
  and the state \<open>w\<close> of the outside world it returns a result or raises, and leaves a new
  world. The function returns the outcome (\<open>Inl\<close>: the exception that leaves the call)
  together with the object's state and the world after the call.
\<close>

definition execute_phase ::
  "(Crew \<Rightarrow> 'w \<Rightarrow> (pyexn + pyval) \<times> 'w) \<Rightarrow> ProjectPhase \<Rightarrow> ProjectCrew \<times> 'w
     \<Rightarrow> (pyexn + CrewResult) \<times> ProjectCrew \<times> 'w" where
  "execute_phase kickoff ph sw =
     (case sw of (self, w) \<Rightarrow>
       (case get_phase_agents self ph of
          Inl e \<Rightarrow> (Inl e, self, w)
        | Inr phase_agents \<Rightarrow>
           (case collect_tasks phase_agents (crew_context self) [] of
              Inl e \<Rightarrow> (Inl e, self, w)
            | Inr all_tasks \<Rightarrow>
                if all_tasks = [] then
                  (Inr \<lparr>phase = ph, status = ''skipped'', outputs = Map.empty,
                        errors = [''No tasks defined for this phase'']\<rparr>,
                   self, w)
                else
                  (case kickoff \<lparr>crew_agents = map agent phase_agents, crew_tasks = all_tasks,
                                  process = sequential, crew_verbose = True\<rparr> w of
                     (Inr result, w') \<Rightarrow>
                       (let crew_result = \<lparr>phase = ph, status = ''completed'',
                                            outputs = [''result'' \<mapsto> result], errors = []\<rparr>;
                            self' = update_context self ph result
                        in (Inr crew_result, self'\<lparr>results := results self' @ [crew_result]\<rparr>, w'))
                   | (Inl e, w') \<Rightarrow>
                       if isinstance_Exception e then
                         (let crew_result = \<lparr>phase = ph, status = ''failed'',
                                              outputs = Map.empty, errors = [exn_str e]\<rparr>
                          in (Inr crew_result, self\<lparr>results := results self @ [crew_result]\<rparr>, w'))
                       else (Inl e, self, w')))))"

definition phases :: "ProjectPhase list" where
  "phases = [PLANNING, ARCHITECTURE, DEVELOPMENT, TESTING, DEPLOYMENT, DOCUMENTATION]"

text \<open>
  The loop of \<^verbatim>\<open>execute_full_pipeline\<close>: \<^verbatim>\<open>break\<close> after a result whose status is
  \<^verbatim>\<open>"failed"\<close>; an exception that leaves \<^verbatim>\<open>execute_phase\<close> leaves the loop too.
\<close>

fun pipeline_loop ::
  "(Crew \<Rightarrow> 'w \<Rightarrow> (pyexn + pyval) \<times> 'w) \<Rightarrow> ProjectPhase list \<Rightarrow> ProjectCrew \<times> 'w
     \<Rightarrow> (pyexn + unit) \<times> ProjectCrew \<times> 'w" where
  "pipeline_loop kickoff [] sw = (Inr (), sw)"
| "pipeline_loop kickoff (ph # rest) sw =
     (case execute_phase kickoff ph sw of
        (Inl e, sw') \<Rightarrow> (Inl e, sw')
      | (Inr result, sw') \<Rightarrow>
          if status result = ''failed'' then (Inr (), sw')
          else pipeline_loop kickoff rest sw')"

definition execute_full_pipeline ::
  "(Crew \<Rightarrow> 'w \<Rightarrow> (pyexn + pyval) \<times> 'w) \<Rightarrow> ProjectCrew \<times> 'w
     \<Rightarrow> (pyexn + CrewResult list) \<times> ProjectCrew \<times> 'w" where
  "execute_full_pipeline kickoff sw =
     (case pipeline_loop kickoff phases sw of
        (Inl e, sw') \<Rightarrow> (Inl e, sw')
      | (Inr u, sw') \<Rightarrow> (Inr (results (fst sw')), sw'))"

text \<open>
  \<^verbatim>\<open>AgentFactory.create_agent\<close>: the class table is looked up at \<^verbatim>\<open>role.lower()\<close>; a class
  object is truthy, so a hit is instantiated and a miss returns \<^verbatim>\<open>None\<close>.
\<close>

definition agent_map :: "(pyval \<Rightarrow> pyexn + string) \<Rightarrow> (string \<times> BaseAgent) list" where
  "agent_map py_str =
     [(''architect'', ArchitectAgent py_str),
      (''backend'', BackendDeveloperAgent py_str),
      (''frontend'', FrontendDeveloperAgent py_str),
      (''database'', DatabaseEngineerAgent py_str),
      (''devops'', DevOpsEngineerAgent py_str),
      (''qa'', QAEngineerAgent py_str),
      (''security'', SecurityAnalystAgent py_str),
      (''writer'', TechnicalWriterAgent py_str)]"

definition create_agent :: "(pyval \<Rightarrow> pyexn + string) \<Rightarrow> string \<Rightarrow> BaseAgent option" where
  "create_agent py_str role_name = map_of (agent_map py_str) (lower role_name)"


section \<open>Test doubles and the vocabulary of the properties\<close>

text \<open>
  A subclass of \<^verbatim>\<open>BaseAgent\<close> whose \<^verbatim>\<open>get_tasks\<close> returns the empty list for every
  context, the case \<^verbatim>\<open>BaseAgent.execute\<close> answers with \<^verbatim>\<open>no_tasks\<close>.
\<close>

definition no_tasks_agent :: BaseAgent where
  "no_tasks_agent =
     \<lparr>config = \<lparr>role = TECH_LEAD, goal = ''none'', backstory = ''none'', tools = [],
                 verbose = True, allow_delegation = False, max_iterations = 10, memory = True\<rparr>,
      get_tasks = (\<lambda>cx. Inr [])\<rparr>"

text \<open>
  An interpreter for the values the model leaves opaque: a user object whose
  \<^verbatim>\<open>__str__\<close> raises \<^verbatim>\<open>TypeError\<close>; any container prints as a fixed text.
\<close>

fun stub_str :: "pyval \<Rightarrow> pyexn + string" where
  "stub_str (PyObject n) = Inl (PyExn ''TypeError'' True ''__str__ returned non-string'')"
| "stub_str v = Inr ''<value>''"

text \<open>
  A constructed orchestrator whose roster entry \<^verbatim>\<open>"devops"\<close> has been replaced by the
  agent without tasks: \<^verbatim>\<open>crew.agents["devops"] = NoTasks()\<close>.
\<close>

definition crew_idle_devops :: ProjectCrew where
  "crew_idle_devops =
     (ProjectCrew_init stub_str [''project_name'' \<mapsto> PyStr ''Acme''])
       \<lparr>agents := (agents (ProjectCrew_init stub_str [''project_name'' \<mapsto> PyStr ''Acme'']))
                    (''devops'' \<mapsto> no_tasks_agent)\<rparr>"

text \<open>Execution layers for tests: one that returns \<^verbatim>\<open>{"ok": True}\<close>, one that raises.\<close>

definition kickoff_ok :: "Crew \<Rightarrow> nat \<Rightarrow> (pyexn + pyval) \<times> nat" where
  "kickoff_ok crew w = (Inr (PyDict [(''ok'', PyBool True)]), Suc w)"

definition kickoff_raises :: "pyexn \<Rightarrow> Crew \<Rightarrow> nat \<Rightarrow> (pyexn + pyval) \<times> nat" where
  "kickoff_raises e crew w = (Inl e, Suc w)"

text \<open>An execution layer that raises \<^verbatim>\<open>ConnectionError("timeout")\<close> on its second call.\<close>

definition kickoff_second_fails :: "Crew \<Rightarrow> nat \<Rightarrow> (pyexn + pyval) \<times> nat" where
  "kickoff_second_fails crew w =
     (if w = 1 then Inl (PyExn ''ConnectionError'' True ''timeout'')
      else Inr (PyDict [(''ok'', PyBool True)]), Suc w)"

text \<open>
  The placeholders the specification names for absent context keys: the default of each
  \<^verbatim>\<open>context.get(key, default)\<close> is compared with this table.
\<close>

definition placeholders :: "(string \<times> pyval) list" where
  "placeholders =
     [(''project_name'', PyStr ''Unknown Project''),
      (''requirements'', PyDict []),
      (''architecture'', PyDict []),
      (''api_spec'', PyDict []),
      (''design_spec'', PyDict []),
      (''api_endpoints'', PyList []),
      (''data_model'', PyDict [])]"

text \<open>
  Two strings that differ only in the case of their ASCII letters: what "case-insensitive"
  compares. Stated without reference to \<^verbatim>\<open>lower\<close>.
\<close>

definition same_letter :: "char \<Rightarrow> char \<Rightarrow> bool" where
  "same_letter c d \<longleftrightarrow>
     c = d \<or> (c, d) \<in> set (zip ascii_uppercase ascii_lowercase)
           \<or> (d, c) \<in> set (zip ascii_uppercase ascii_lowercase)"

definition differ_only_in_case :: "string \<Rightarrow> string \<Rightarrow> bool" where
  "differ_only_in_case s t \<longleftrightarrow> list_all2 same_letter s t"


section \<open>Task generation of the eight agents\<close>

lemma ArchitectAgent_tasks:
  "ArchitectAgent_get_tasks py_str cx = Inr ts \<Longrightarrow> length ts = 2"
  by (auto simp: ArchitectAgent_get_tasks_def Let_def split: sum.splits)

lemma BackendDeveloperAgent_tasks:
  "BackendDeveloperAgent_get_tasks py_str cx = Inr ts \<Longrightarrow> length ts = 2"
  by (auto simp: BackendDeveloperAgent_get_tasks_def Let_def split: sum.splits)

lemma FrontendDeveloperAgent_tasks:
  "FrontendDeveloperAgent_get_tasks py_str cx = Inr ts \<Longrightarrow> length ts = 2"
  by (auto simp: FrontendDeveloperAgent_get_tasks_def Let_def split: sum.splits)

lemma DatabaseEngineerAgent_tasks:
  "DatabaseEngineerAgent_get_tasks py_str cx = Inr ts \<Longrightarrow> length ts = 2"
  by (auto simp: DatabaseEngineerAgent_get_tasks_def Let_def split: sum.splits)

lemma DevOpsEngineerAgent_tasks:
  "DevOpsEngineerAgent_get_tasks py_str cx = Inr ts \<Longrightarrow> length ts = 3"
  by (auto simp: DevOpsEngineerAgent_get_tasks_def Let_def split: sum.splits)

lemma QAEngineerAgent_tasks:
  "QAEngineerAgent_get_tasks py_str cx = Inr ts \<Longrightarrow> length ts = 3"
  by (auto simp: QAEngineerAgent_get_tasks_def Let_def split: sum.splits)

lemma SecurityAnalystAgent_tasks:
  "SecurityAnalystAgent_get_tasks py_str cx = Inr ts \<Longrightarrow> length ts = 3"
  by (auto simp: SecurityAnalystAgent_get_tasks_def Let_def split: sum.splits)

lemma TechnicalWriterAgent_tasks:
  "TechnicalWriterAgent_get_tasks py_str cx = Inr ts \<Longrightarrow> length ts = 2"
  by (auto simp: TechnicalWriterAgent_get_tasks_def Let_def split: sum.splits)

lemma roster_agent_tasks_nonempty:
  assumes "(key, a) \<in> set (agent_map py_str)" and "get_tasks a cx = Inr ts"
  shows "ts \<noteq> []"
proof -
  from assms have "length ts = 2 \<or> length ts = 3"
    by (auto simp: agent_map_def ArchitectAgent_def BackendDeveloperAgent_def
        FrontendDeveloperAgent_def DatabaseEngineerAgent_def DevOpsEngineerAgent_def
        QAEngineerAgent_def SecurityAnalystAgent_def TechnicalWriterAgent_def
        dest: ArchitectAgent_tasks BackendDeveloperAgent_tasks FrontendDeveloperAgent_tasks
        DatabaseEngineerAgent_tasks DevOpsEngineerAgent_tasks QAEngineerAgent_tasks
        SecurityAnalystAgent_tasks TechnicalWriterAgent_tasks)
  then show ?thesis by auto
qed

section \<open>Collecting the batch of a phase\<close>

lemma collect_tasks_extends:
  "collect_tasks as cx acc = Inr ts \<Longrightarrow> \<exists>more. ts = acc @ more"
proof (induction as arbitrary: acc)
  case Nil
  then show ?case by simp
next
  case (Cons a as)
  then show ?case by (fastforce split: sum.splits)
qed

lemma collect_tasks_first:
  assumes "collect_tasks (a # as) cx [] = Inr ts"
  shows "\<exists>first more. get_tasks a cx = Inr first \<and> ts = first @ more"
proof (cases "get_tasks a cx")
  case (Inl e)
  with assms show ?thesis by simp
next
  case (Inr first)
  with assms have "collect_tasks as cx first = Inr ts" by simp
  from collect_tasks_extends [OF this] Inr show ?thesis by blast
qed

lemma collect_tasks_concat:
  "list_all2 (\<lambda>a ts. get_tasks a cx = Inr ts) as tss
     \<Longrightarrow> collect_tasks as cx acc = Inr (acc @ concat tss)"
proof (induction as arbitrary: acc tss)
  case Nil
  then show ?case by simp
next
  case (Cons a as)
  then obtain ts rest where tss: "tss = ts # rest" and a: "get_tasks a cx = Inr ts"
    and rest: "list_all2 (\<lambda>a ts. get_tasks a cx = Inr ts) as rest"
    by (auto simp: list_all2_Cons1)
  from Cons.IH [OF rest, of "acc @ ts"] a tss show ?case by simp
qed

lemma collect_tasks_raises:
  "list_all2 (\<lambda>a ts. get_tasks a cx = Inr ts) before tss \<Longrightarrow> get_tasks a cx = Inl e
     \<Longrightarrow> collect_tasks (before @ a # after) cx acc = Inl e"
proof (induction before arbitrary: acc tss)
  case Nil
  then show ?case by simp
next
  case (Cons b before)
  then obtain ts rest where "get_tasks b cx = Inr ts"
    and "list_all2 (\<lambda>a ts. get_tasks a cx = Inr ts) before rest"
    by (auto simp: list_all2_Cons1)
  with Cons.IH [of rest "acc @ ts"] Cons.prems(2) show ?case by simp
qed

lemma collect_tasks_no_tasks:
  "\<forall>a\<in>set as. get_tasks a cx = Inr [] \<Longrightarrow> collect_tasks as cx acc = Inr acc"
  by (induction as arbitrary: acc) simp_all

section \<open>The roster built by the constructor\<close>

lemma ProjectCrew_init_agents:
  "agents (ProjectCrew_init py_str cx) = map_of (agent_map py_str)"
  by (simp add: ProjectCrew_init_def agent_map_def)

lemma lookup_agents_in_roster:
  "lookup_agents (map_of xs) keys = Inr as \<Longrightarrow> a \<in> set as \<Longrightarrow> \<exists>key. (key, a) \<in> set xs"
proof (induction keys arbitrary: as)
  case Nil
  then show ?case by simp
next
  case (Cons key keys)
  show ?case
  proof (cases "map_of xs key")
    case None
    with Cons.prems show ?thesis by simp
  next
    case (Some b)
    show ?thesis
    proof (cases "lookup_agents (map_of xs) keys")
      case (Inl e)
      with Some Cons.prems show ?thesis by simp
    next
      case (Inr bs)
      with Some Cons.prems have "as = b # bs" by simp
      with Cons.prems(2) have "a = b \<or> a \<in> set bs" by auto
      then show ?thesis
      proof
        assume "a = b"
        with map_of_SomeD [OF Some] show ?thesis by blast
      next
        assume "a \<in> set bs"
        from Cons.IH [OF Inr this] show ?thesis .
      qed
    qed
  qed
qed

lemma roster_phase_agents:
  assumes "agents self = map_of (agent_map py_str)"
  shows "\<exists>a as. get_phase_agents self ph = Inr (a # as)
           \<and> (\<forall>b\<in>set (a # as). \<exists>key. (key, b) \<in> set (agent_map py_str))"
proof -
  have "\<exists>a as. get_phase_agents self ph = Inr (a # as)"
    using assms by (cases ph) (simp_all add: get_phase_agents_def agent_map_def)
  then obtain a as where ags: "get_phase_agents self ph = Inr (a # as)" by blast
  then have "lookup_agents (map_of (agent_map py_str)) (phase_mapping ph) = Inr (a # as)"
    using assms by (simp add: get_phase_agents_def)
  from lookup_agents_in_roster [OF this] ags show ?thesis by blast
qed

lemma roster_batch_nonempty:
  assumes "agents self = map_of (agent_map py_str)"
    and "get_phase_agents self ph = Inr ags"
    and "collect_tasks ags cx [] = Inr ts"
  shows "ts \<noteq> []"
proof -
  from roster_phase_agents [OF assms(1), of ph] assms(2)
  obtain a as key where ags: "ags = a # as" and a: "(key, a) \<in> set (agent_map py_str)"
    by auto
  from collect_tasks_first assms(3) ags
  obtain first more where "get_tasks a cx = Inr first" and "ts = first @ more" by blast
  with roster_agent_tasks_nonempty [OF a] show ?thesis by simp
qed

section \<open>One phase\<close>

lemma execute_phase_roster_raises:
  "get_phase_agents self ph = Inl e \<Longrightarrow> execute_phase kickoff ph (self, w) = (Inl e, self, w)"
  by (simp add: execute_phase_def)

lemma execute_phase_get_tasks_raises:
  "get_phase_agents self ph = Inr ags \<Longrightarrow> collect_tasks ags (crew_context self) [] = Inl e
     \<Longrightarrow> execute_phase kickoff ph (self, w) = (Inl e, self, w)"
  by (simp add: execute_phase_def)

lemma execute_phase_skipped:
  "get_phase_agents self ph = Inr ags \<Longrightarrow> collect_tasks ags (crew_context self) [] = Inr []
     \<Longrightarrow> execute_phase kickoff ph (self, w) =
       (Inr \<lparr>phase = ph, status = ''skipped'', outputs = Map.empty,
             errors = [''No tasks defined for this phase'']\<rparr>, self, w)"
  by (simp add: execute_phase_def)

lemma execute_phase_completed:
  "get_phase_agents self ph = Inr ags \<Longrightarrow> collect_tasks ags (crew_context self) [] = Inr ts
     \<Longrightarrow> ts \<noteq> []
     \<Longrightarrow> kickoff \<lparr>crew_agents = map agent ags, crew_tasks = ts, process = sequential,
                  crew_verbose = True\<rparr> w = (Inr result, w')
     \<Longrightarrow> execute_phase kickoff ph (self, w) =
       (Inr \<lparr>phase = ph, status = ''completed'', outputs = [''result'' \<mapsto> result], errors = []\<rparr>,
        (update_context self ph result)
          \<lparr>results := results self @
             [\<lparr>phase = ph, status = ''completed'', outputs = [''result'' \<mapsto> result], errors = []\<rparr>]\<rparr>,
        w')"
  by (simp add: execute_phase_def Let_def update_context_def)

lemma execute_phase_failed:
  "get_phase_agents self ph = Inr ags \<Longrightarrow> collect_tasks ags (crew_context self) [] = Inr ts
     \<Longrightarrow> ts \<noteq> []
     \<Longrightarrow> kickoff \<lparr>crew_agents = map agent ags, crew_tasks = ts, process = sequential,
                  crew_verbose = True\<rparr> w = (Inl e, w')
     \<Longrightarrow> isinstance_Exception e
     \<Longrightarrow> execute_phase kickoff ph (self, w) =
       (Inr \<lparr>phase = ph, status = ''failed'', outputs = Map.empty, errors = [exn_str e]\<rparr>,
        self\<lparr>results := results self @
             [\<lparr>phase = ph, status = ''failed'', outputs = Map.empty, errors = [exn_str e]\<rparr>]\<rparr>,
        w')"
  by (simp add: execute_phase_def Let_def)

lemma execute_phase_escapes:
  "get_phase_agents self ph = Inr ags \<Longrightarrow> collect_tasks ags (crew_context self) [] = Inr ts
     \<Longrightarrow> ts \<noteq> []
     \<Longrightarrow> kickoff \<lparr>crew_agents = map agent ags, crew_tasks = ts, process = sequential,
                  crew_verbose = True\<rparr> w = (Inl e, w')
     \<Longrightarrow> \<not> isinstance_Exception e
     \<Longrightarrow> execute_phase kickoff ph (self, w) = (Inl e, self, w')"
  by (simp add: execute_phase_def Let_def)

lemma update_context_agents: "agents (update_context self ph result) = agents self"
  by (simp add: update_context_def)

lemma update_context_results: "results (update_context self ph result) = results self"
  by (simp add: update_context_def)

text \<open>The ways a call of \<^verbatim>\<open>execute_phase\<close> can end.\<close>

lemma execute_phase_outcomes:
  obtains
    (roster_raises) e where "get_phase_agents self ph = Inl e"
      "execute_phase kickoff ph (self, w) = (Inl e, self, w)"
  | (get_tasks_raises) ags e where "get_phase_agents self ph = Inr ags"
      "collect_tasks ags (crew_context self) [] = Inl e"
      "execute_phase kickoff ph (self, w) = (Inl e, self, w)"
  | (skipped) ags where "get_phase_agents self ph = Inr ags"
      "collect_tasks ags (crew_context self) [] = Inr []"
      "execute_phase kickoff ph (self, w) =
         (Inr \<lparr>phase = ph, status = ''skipped'', outputs = Map.empty,
               errors = [''No tasks defined for this phase'']\<rparr>, self, w)"
  | (completed) ags ts result w' where "get_phase_agents self ph = Inr ags"
      "collect_tasks ags (crew_context self) [] = Inr ts" "ts \<noteq> []"
      "kickoff \<lparr>crew_agents = map agent ags, crew_tasks = ts, process = sequential,
                crew_verbose = True\<rparr> w = (Inr result, w')"
      "execute_phase kickoff ph (self, w) =
         (Inr \<lparr>phase = ph, status = ''completed'', outputs = [''result'' \<mapsto> result], errors = []\<rparr>,
          (update_context self ph result)
            \<lparr>results := results self @
               [\<lparr>phase = ph, status = ''completed'', outputs = [''result'' \<mapsto> result],
                 errors = []\<rparr>]\<rparr>,
          w')"
  | (failed) ags ts e w' where "get_phase_agents self ph = Inr ags"
      "collect_tasks ags (crew_context self) [] = Inr ts" "ts \<noteq> []"
      "kickoff \<lparr>crew_agents = map agent ags, crew_tasks = ts, process = sequential,
                crew_verbose = True\<rparr> w = (Inl e, w')"
      "isinstance_Exception e"
      "execute_phase kickoff ph (self, w) =
         (Inr \<lparr>phase = ph, status = ''failed'', outputs = Map.empty, errors = [exn_str e]\<rparr>,
          self\<lparr>results := results self @
               [\<lparr>phase = ph, status = ''failed'', outputs = Map.empty, errors = [exn_str e]\<rparr>]\<rparr>,
          w')"
  | (escapes) ags ts e w' where "get_phase_agents self ph = Inr ags"
      "collect_tasks ags (crew_context self) [] = Inr ts" "ts \<noteq> []"
      "kickoff \<lparr>crew_agents = map agent ags, crew_tasks = ts, process = sequential,
                crew_verbose = True\<rparr> w = (Inl e, w')"
      "\<not> isinstance_Exception e"
      "execute_phase kickoff ph (self, w) = (Inl e, self, w')"
proof (cases "get_phase_agents self ph")
  case (Inl e)
  from roster_raises [OF Inl execute_phase_roster_raises [where kickoff = kickoff, OF Inl]] show ?thesis .
next
  case ags: (Inr ags)
  show ?thesis
  proof (cases "collect_tasks ags (crew_context self) []")
    case (Inl e)
    from get_tasks_raises [OF ags Inl execute_phase_get_tasks_raises [where kickoff = kickoff, OF ags Inl]] show ?thesis .
  next
    case ts: (Inr ts)
    show ?thesis
    proof (cases "ts = []")
      case True
      with ts have emp: "collect_tasks ags (crew_context self) [] = Inr []" by simp
      from skipped [OF ags emp execute_phase_skipped [where kickoff = kickoff, OF ags emp]] show ?thesis .
    next
      case False
      obtain out w' where k: "kickoff \<lparr>crew_agents = map agent ags, crew_tasks = ts,
          process = sequential, crew_verbose = True\<rparr> w = (out, w')"
        by (cases "kickoff \<lparr>crew_agents = map agent ags, crew_tasks = ts,
          process = sequential, crew_verbose = True\<rparr> w") auto
      show ?thesis
      proof (cases out)
        case (Inr result)
        from completed [OF ags ts False k [unfolded Inr]
            execute_phase_completed [where kickoff = kickoff, OF ags ts False k [unfolded Inr]]]
        show ?thesis .
      next
        case (Inl e)
        show ?thesis
        proof (cases "isinstance_Exception e")
          case True
          from failed [OF ags ts False k [unfolded Inl] True
              execute_phase_failed [where kickoff = kickoff, OF ags ts False k [unfolded Inl] True]]
          show ?thesis .
        next
          case no: False
          from escapes [OF ags ts False k [unfolded Inl] no
              execute_phase_escapes [where kickoff = kickoff, OF ags ts False k [unfolded Inl] no]]
          show ?thesis .
        qed
      qed
    qed
  qed
qed

lemma execute_phase_agents:
  assumes "execute_phase kickoff ph (self, w) = (out, self', w')"
  shows "agents self' = agents self"
  by (cases rule: execute_phase_outcomes [of self ph kickoff w])
    (use assms in \<open>simp_all add: update_context_agents\<close>)

text \<open>
  On the constructor's roster every phase has tasks, so a call that returns has run the
  batch: the result is \<^verbatim>\<open>completed\<close> or \<^verbatim>\<open>failed\<close> and it is the new last entry of the log.
\<close>

lemma roster_execute_phase:
  assumes roster: "agents self = map_of (agent_map py_str)"
    and run: "execute_phase kickoff ph (self, w) = (Inr r, self', w')"
  shows "results self' = results self @ [r] \<and> phase r = ph
           \<and> (status r = ''completed'' \<or> status r = ''failed'')"
proof (cases rule: execute_phase_outcomes [of self ph kickoff w])
  case (roster_raises e)
  with run show ?thesis by simp
next
  case (get_tasks_raises ags e)
  with run show ?thesis by simp
next
  case (skipped ags)
  with roster_batch_nonempty [OF roster skipped(1) skipped(2)] show ?thesis by simp
next
  case (completed ags ts result w1)
  from run completed(5) show ?thesis by (auto simp: update_context_results)
next
  case (failed ags ts e w1)
  from run failed(6) show ?thesis by auto
next
  case (escapes ags ts e w1)
  with run show ?thesis by simp
qed

section \<open>The pipeline loop\<close>

lemma pipeline_loop_agents:
  "pipeline_loop kickoff ps (self, w) = (out, self', w') \<Longrightarrow> agents self' = agents self"
proof (induction ps arbitrary: self w)
  case Nil
  then show ?case by simp
next
  case (Cons ph ps)
  obtain o1 s1 w1 where step: "execute_phase kickoff ph (self, w) = (o1, s1, w1)"
    by (cases "execute_phase kickoff ph (self, w)") auto
  from execute_phase_agents [OF step] have a1: "agents s1 = agents self" .
  show ?case
  proof (cases o1)
    case (Inl e)
    with step Cons.prems a1 show ?thesis by simp
  next
    case (Inr r)
    show ?thesis
    proof (cases "status r = ''failed''")
      case True
      with step Inr Cons.prems a1 show ?thesis by simp
    next
      case False
      with step Inr Cons.prems have "pipeline_loop kickoff ps (s1, w1) = (out, self', w')"
        by simp
      from Cons.IH [OF this] a1 show ?thesis by simp
    qed
  qed
qed

text \<open>
  The entries a run of the loop adds to the log, on the constructor's roster: one per
  phase in order, none after a \<^verbatim>\<open>failed\<close> one, and all phases unless the last is \<^verbatim>\<open>failed\<close>.
\<close>

lemma roster_pipeline_loop:
  assumes "agents self = map_of (agent_map py_str)"
    and "pipeline_loop kickoff ps (self, w) = (Inr u, self', w')"
  shows "\<exists>rs. results self' = results self @ rs
           \<and> map phase rs = take (length rs) ps
           \<and> (\<forall>i<length rs. status (rs ! i) = ''failed'' \<longrightarrow> Suc i = length rs)
           \<and> (length rs < length ps \<longrightarrow> rs \<noteq> [] \<and> status (last rs) = ''failed'')"
  using assms
proof (induction ps arbitrary: self w)
  case Nil
  then show ?case by simp
next
  case (Cons ph ps)
  obtain o1 s1 w1 where step: "execute_phase kickoff ph (self, w) = (o1, s1, w1)"
    by (cases "execute_phase kickoff ph (self, w)") auto
  show ?case
  proof (cases o1)
    case (Inl e)
    with step Cons.prems(2) show ?thesis by simp
  next
    case (Inr r)
    with step have step': "execute_phase kickoff ph (self, w) = (Inr r, s1, w1)" by simp
    from roster_execute_phase [OF Cons.prems(1) step']
    have r1: "results s1 = results self @ [r]" and r2: "phase r = ph" by simp_all
    show ?thesis
    proof (cases "status r = ''failed''")
      case True
      with step' Cons.prems(2) have "self' = s1" by simp
      with r1 have a: "results self' = results self @ [r]" by simp
      have b: "map phase [r] = take (length [r]) (ph # ps)" using r2 by simp
      have c: "\<forall>i<length [r]. status ([r] ! i) = ''failed'' \<longrightarrow> Suc i = length [r]" by simp
      have d: "length [r] < length (ph # ps) \<longrightarrow> [r] \<noteq> [] \<and> status (last [r]) = ''failed''"
        using True by simp
      from a b c d show ?thesis by blast
    next
      case False
      with step' Cons.prems(2) have run: "pipeline_loop kickoff ps (s1, w1) = (Inr u, self', w')"
        by simp
      from execute_phase_agents [OF step'] Cons.prems(1)
      have "agents s1 = map_of (agent_map py_str)" by simp
      from Cons.IH [OF this run] obtain rs where rs1: "results self' = results s1 @ rs"
        and rs2: "map phase rs = take (length rs) ps"
        and rs3: "\<forall>i<length rs. status (rs ! i) = ''failed'' \<longrightarrow> Suc i = length rs"
        and rs4: "length rs < length ps \<longrightarrow> rs \<noteq> [] \<and> status (last rs) = ''failed''"
        by blast
      have a: "results self' = results self @ (r # rs)" using rs1 r1 by simp
      have b: "map phase (r # rs) = take (length (r # rs)) (ph # ps)" using rs2 r2 by simp
      have c: "\<forall>i<length (r # rs). status ((r # rs) ! i) = ''failed'' \<longrightarrow> Suc i = length (r # rs)"
      proof (intro allI impI)
        fix i assume i: "i < length (r # rs)" and f: "status ((r # rs) ! i) = ''failed''"
        show "Suc i = length (r # rs)"
        proof (cases i)
          case 0
          with f False show ?thesis by simp
        next
          case (Suc j)
          with i f rs3 show ?thesis by simp
        qed
      qed
      have d: "length (r # rs) < length (ph # ps)
                 \<longrightarrow> r # rs \<noteq> [] \<and> status (last (r # rs)) = ''failed''"
        using rs4 by auto
      from a b c d show ?thesis by blast
    qed
  qed
qed

section \<open>The properties\<close>

text \<open>
  C5. For every phase whose agents all produce an empty task list for the current context,
  \<^verbatim>\<open>execute_phase\<close> returns a result with status \<^verbatim>\<open>skipped\<close> and a non-empty error list,
  and the context mapping after the call equals the one before.
\<close>

theorem C5_no_tasks_skipped:
  assumes "get_phase_agents self ph = Inr ags"
    and "\<forall>a\<in>set ags. get_tasks a (crew_context self) = Inr []"
  shows "\<exists>r self' w'. execute_phase kickoff ph (self, w) = (Inr r, self', w')
           \<and> phase r = ph \<and> status r = ''skipped'' \<and> errors r \<noteq> []
           \<and> crew_context self' = crew_context self"
proof -
  from collect_tasks_no_tasks [OF assms(2)]
  have "collect_tasks ags (crew_context self) [] = Inr []" .
  from execute_phase_skipped [where kickoff = kickoff, OF assms(1) this]
  show ?thesis by simp
qed

lemma crew_idle_devops_agents:
  "get_phase_agents crew_idle_devops DEPLOYMENT = Inr [no_tasks_agent]"
  by (simp add: get_phase_agents_def crew_idle_devops_def ProjectCrew_init_def)

theorem C5_no_tasks_skipped_witness:
  "get_phase_agents crew_idle_devops DEPLOYMENT = Inr [no_tasks_agent]
   \<and> get_tasks no_tasks_agent (crew_context crew_idle_devops) = Inr []
   \<and> (\<exists>r self' w'. execute_phase kickoff_ok DEPLOYMENT (crew_idle_devops, 0) = (Inr r, self', w')
         \<and> phase r = DEPLOYMENT \<and> status r = ''skipped'' \<and> errors r \<noteq> []
         \<and> crew_context self' = crew_context crew_idle_devops)"
proof -
  have tasks: "\<forall>a\<in>set [no_tasks_agent]. get_tasks a (crew_context crew_idle_devops) = Inr []"
    by (simp add: no_tasks_agent_def)
  from C5_no_tasks_skipped [OF crew_idle_devops_agents tasks, of kickoff_ok 0]
  show ?thesis using crew_idle_devops_agents by (simp add: no_tasks_agent_def)
qed

text \<open>
  C2. Every call of \<^verbatim>\<open>execute_phase\<close> is claimed to append one result to the log. The
  early return of the \<^verbatim>\<open>skipped\<close> branch comes before \<^verbatim>\<open>self.results.append\<close>: on the
  orchestrator whose deployment agent has no tasks the call returns a \<^verbatim>\<open>skipped\<close> result
  and the log is as long as before (empty).
\<close>

theorem C2_skipped_result_not_logged:
  "execute_phase kickoff_ok DEPLOYMENT (crew_idle_devops, 0) =
     (Inr \<lparr>phase = DEPLOYMENT, status = ''skipped'', outputs = Map.empty,
           errors = [''No tasks defined for this phase'']\<rparr>, crew_idle_devops, 0)
   \<and> results crew_idle_devops = []"
proof -
  have "collect_tasks [no_tasks_agent] (crew_context crew_idle_devops) [] = Inr []"
    by (simp add: no_tasks_agent_def)
  from execute_phase_skipped [where kickoff = kickoff_ok, OF crew_idle_devops_agents this]
  show ?thesis by (simp add: crew_idle_devops_def ProjectCrew_init_def)
qed


end
